theory Spec2Isabelle
  imports Main "HOL-Library.Multiset"
begin

section \<open>finSight backend: request handlers over a relational store\<close>

text \<open>
  The development embeds the two controllers of the backend,
  \<^verbatim>\<open>backend/src/controllers/assetController.ts\<close> (getAssets, addAsset, updateAsset,
  deleteAsset) and the authentication controller (register, login), as functions from a
  request and a store to a response and a store.

  Conventions of the embedding:
  \<^item> A JavaScript string is a \<open>string\<close>; a character stands for an ASCII character.
    \<open>toUpperCase\<close> maps the letters a..z and leaves every other character alone (the
    Unicode case mapping of non-ASCII text is not modelled).
  \<^item> A field of the JSON body is a JSON scalar or absent (\<open>JUndefined\<close>); a number is an
    integer. Arrays and objects as field values are not modelled.
  \<^item> An exception is a value of type \<open>exn\<close>; every handler's \<^verbatim>\<open>catch\<close> block answers
    500 (its \<^verbatim>\<open>console.error\<close> is not modelled).
  \<^item> The message literals of the source are Chinese text; each distinct literal is one
    constructor of \<open>msg\<close>, so two responses carry the same message exactly when the
    source writes the same literal.
\<close>

subsection \<open>JavaScript values\<close>

datatype jsval = JUndefined | JNull | JBool bool | JNum int | JStr string

text \<open>Truthiness, as \<^verbatim>\<open>!x\<close> and \<^verbatim>\<open>x || y\<close> read it.\<close>

fun truthy :: "jsval \<Rightarrow> bool" where
  "truthy JUndefined = False"
| "truthy JNull = False"
| "truthy (JBool b) = b"
| "truthy (JNum n) = (n \<noteq> 0)"
| "truthy (JStr s) = (s \<noteq> [])"

definition js_or :: "jsval \<Rightarrow> jsval \<Rightarrow> jsval" where
  "js_or a b = (if truthy a then a else b)"

datatype exn =
    TypeError
  | PrismaValidationError
  | UniqueConstraintFailed
  | ForeignKeyConstraintFailed
  | RecordNotFound

text \<open>
  \<^verbatim>\<open>toUpperCase\<close> on ASCII text, by character code: a letter a..z becomes its capital,
  every other character stays. On a string with a non-ASCII character the JavaScript
  method does more (it maps such letters too and may lengthen the string), so a property
  that depends on the uppercased text is stated for ASCII strings (\<open>is_ascii\<close>).
\<close>

definition upper_char :: "char \<Rightarrow> char" where
  "upper_char c =
     (let n = (of_char c :: nat) in if 97 \<le> n \<and> n \<le> 122 then char_of (n - 32) else c)"

definition toUpperCase :: "string \<Rightarrow> string" where
  "toUpperCase s = map upper_char s"

definition is_ascii :: "string \<Rightarrow> bool" where
  "is_ascii s = list_all (\<lambda>c. (of_char c :: nat) < 128) s"

text \<open>
  The upper-case form the spec's words ask for ("normalized to uppercase"), written
  independently of \<open>toUpperCase\<close> as a table of the 26 letters, to compare the two: the
  k-th small letter becomes the k-th capital letter and nothing else changes.
\<close>

definition small_letters :: string where
  "small_letters = ''abcdefghijklmnopqrstuvwxyz''"

definition capital_letters :: string where
  "capital_letters = ''ABCDEFGHIJKLMNOPQRSTUVWXYZ''"

definition capital_of :: "char \<Rightarrow> char" where
  "capital_of c =
     (case map_of (zip small_letters capital_letters) c of None \<Rightarrow> c | Some C \<Rightarrow> C)"

definition uppercase_by_table :: "string \<Rightarrow> string" where
  "uppercase_by_table s = map capital_of s"

text \<open>
  \<^verbatim>\<open>symbol.toUpperCase()\<close> on a body field: a string has the method; a truthy number or
  boolean has no such method and the call throws a TypeError (undefined and null throw as
  well, on the property access).
\<close>

fun call_toUpperCase :: "jsval \<Rightarrow> exn + string" where
  "call_toUpperCase (JStr s) = Inr (toUpperCase s)"
| "call_toUpperCase _ = Inl TypeError"

subsection \<open>parseInt\<close>

text \<open>
  \<^verbatim>\<open>parseInt(req.params.id)\<close> with no radix: leading (ASCII) white space is skipped, one sign
  is read, a prefix 0x or 0X selects radix 16, and the longest prefix of digits is the
  value; with no digit the result is NaN, here \<open>None\<close>. The value is an unbounded
  integer (the rounding of integers beyond 2^53 to a double is not modelled).
\<close>

definition js_whitespace :: "char \<Rightarrow> bool" where
  "js_whitespace c = ((of_char c :: nat) \<in> {9, 10, 11, 12, 13, 32})"

definition digit_value :: "char \<Rightarrow> nat option" where
  "digit_value c =
     (let n = (of_char c :: nat) in
      if 48 \<le> n \<and> n \<le> 57 then Some (n - 48)
      else if 97 \<le> n \<and> n \<le> 122 then Some (n - 87)
      else if 65 \<le> n \<and> n \<le> 90 then Some (n - 55)
      else None)"

definition is_digit :: "nat \<Rightarrow> char \<Rightarrow> bool" where
  "is_digit radix c = (case digit_value c of None \<Rightarrow> False | Some d \<Rightarrow> d < radix)"

definition digits_value :: "nat \<Rightarrow> string \<Rightarrow> nat" where
  "digits_value radix z =
     foldl (\<lambda>acc c. acc * radix + (case digit_value c of None \<Rightarrow> 0 | Some d \<Rightarrow> d)) 0 z"

definition parseInt :: "string \<Rightarrow> int option" where
  "parseInt inputString =
     (let s = dropWhile js_whitespace inputString;
          negative = (s \<noteq> [] \<and> hd s = CHR ''-'');
          s1 = (if s \<noteq> [] \<and> (hd s = CHR ''+'' \<or> hd s = CHR ''-'') then tl s else s);
          hex = (take 2 s1 = ''0x'' \<or> take 2 s1 = ''0X'');
          radix = (if hex then 16 else 10);
          s2 = (if hex then drop 2 s1 else s1);
          z = takeWhile (is_digit radix) s2
      in if z = [] then None
         else Some ((if negative then - 1 else 1) * int (digits_value radix z)))"

subsection \<open>Requests and responses\<close>

text \<open>\<open>JwtPayload\<close> is the interface of \<^verbatim>\<open>utils/jwt.ts\<close>; \<^verbatim>\<open>req.user\<close> is optional.\<close>

record JwtPayload =
  userId :: int
  email :: string
  username :: string

text \<open>
  The parts of an Express request the handlers read: \<^verbatim>\<open>req.user\<close> (set by the
  authentication middleware), \<^verbatim>\<open>req.params.id\<close> and the properties of the parsed JSON
  body (each property once). Reading a property the body does not have gives undefined.
\<close>

record request =
  user :: "JwtPayload option"
  params_id :: string
  body :: "(string \<times> jsval) list"

definition field :: "request \<Rightarrow> string \<Rightarrow> jsval" where
  "field req k = (case map_of (body req) k of None \<Rightarrow> JUndefined | Some v \<Rightarrow> v)"

text \<open>\<^verbatim>\<open>req.user?.userId\<close>: undefined (\<open>None\<close>) when the request carries no user.\<close>

definition req_userId :: "request \<Rightarrow> int option" where
  "req_userId req = map_option userId (user req)"

text \<open>
  The rows of the two tables, with the columns the controllers read or write. A column
  the store keeps on its own account (an update timestamp) is named by no handler and is
  not part of the rows here.
\<close>

record Asset =
  asset_id :: int
  asset_userId :: int
  asset_symbol :: string
  asset_name :: string
  asset_type :: string
  asset_notes :: "string option"
  asset_createdAt :: int

record User =
  user_id :: int
  user_email :: string
  user_username :: string
  user_password :: string
  user_createdAt :: int

text \<open>
  The message literals, by the code points of the source text:
  \<^item> \<open>MsgUnauthorized\<close>: U+672A U+6388 U+6743
  \<^item> \<open>MsgServerError\<close>: U+670D U+52A1 U+5668 U+9519 U+8BEF
  \<^item> \<open>MsgAssetFieldsRequired\<close>: U+8D44 U+4EA7 U+4EE3 U+7801 U+3001 U+540D U+79F0 U+548C
    U+7C7B U+578B U+90FD U+662F U+5FC5 U+586B U+9879
  \<^item> \<open>MsgAssetAlreadyListed\<close>: U+8BE5 U+8D44 U+4EA7 U+5DF2 U+5728 U+60A8 U+7684 U+5217
    U+8868 U+4E2D
  \<^item> \<open>MsgAssetAdded\<close>: U+8D44 U+4EA7 U+6DFB U+52A0 U+6210 U+529F
  \<^item> \<open>MsgAssetNotFound\<close>: U+8D44 U+4EA7 U+4E0D U+5B58 U+5728
  \<^item> \<open>MsgAssetUpdated\<close>: U+8D44 U+4EA7 U+66F4 U+65B0 U+6210 U+529F
  \<^item> \<open>MsgAssetDeleted\<close>: U+8D44 U+4EA7 U+5220 U+9664 U+6210 U+529F
  \<^item> \<open>MsgRegisterFieldsRequired\<close>: U+90AE U+7BB1 U+3001 U+7528 U+6237 U+540D U+548C U+5BC6
    U+7801 U+90FD U+662F U+5FC5 U+586B U+9879
  \<^item> \<open>MsgPasswordTooShort\<close>: U+5BC6 U+7801 U+957F U+5EA6 U+81F3 U+5C11 U+4E3A U+0020 U+0036
    U+0020 U+4F4D
  \<^item> \<open>MsgEmailTaken\<close>: U+8BE5 U+90AE U+7BB1 U+5DF2 U+88AB U+6CE8 U+518C
  \<^item> \<open>MsgUsernameTaken\<close>: U+8BE5 U+7528 U+6237 U+540D U+5DF2 U+88AB U+4F7F U+7528
  \<^item> \<open>MsgRegistered\<close>: U+6CE8 U+518C U+6210 U+529F
  \<^item> \<open>MsgLoginFieldsRequired\<close>: U+90AE U+7BB1 U+002F U+7528 U+6237 U+540D U+548C U+5BC6
    U+7801 U+90FD U+662F U+5FC5 U+586B U+9879
  \<^item> \<open>MsgBadCredentials\<close>: U+7528 U+6237 U+540D U+002F U+90AE U+7BB1 U+6216 U+5BC6 U+7801
    U+9519 U+8BEF
  \<^item> \<open>MsgLoggedIn\<close>: U+767B U+5F55 U+6210 U+529F
\<close>

datatype msg =
    MsgUnauthorized
  | MsgServerError
  | MsgAssetFieldsRequired
  | MsgAssetAlreadyListed
  | MsgAssetAdded
  | MsgAssetNotFound
  | MsgAssetUpdated
  | MsgAssetDeleted
  | MsgRegisterFieldsRequired
  | MsgPasswordTooShort
  | MsgEmailTaken
  | MsgUsernameTaken
  | MsgRegistered
  | MsgLoginFieldsRequired
  | MsgBadCredentials
  | MsgLoggedIn

text \<open>
  The JSON bodies the handlers send: \<^verbatim>\<open>{ error }\<close>, \<^verbatim>\<open>{ message }\<close>,
  \<^verbatim>\<open>{ assets }\<close>, \<^verbatim>\<open>{ message, asset }\<close>, and the two bodies of the authentication
  controller, \<^verbatim>\<open>{ message, user, token }\<close> with the user's id, email, username and (on
  register only) creation time.
\<close>

datatype json_body =
    ErrorJson msg
  | MessageJson msg
  | AssetsJson "Asset list"
  | MessageAssetJson msg Asset
  | RegisterJson msg int string string int string
  | LoginJson msg int string string string

text \<open>A response is its status (200 when the handler calls \<^verbatim>\<open>res.json\<close> alone) and its body.\<close>

datatype response = Response (status: nat) (json: json_body)

subsection \<open>The store\<close>

text \<open>
  The store is the two tables, the two id counters, and \<open>userScan\<close>: for a look-up of
  users by email \<open>e\<close> or username \<open>n\<close>, \<open>userScan s e n u\<close> is the place of row \<open>u\<close> in the
  order in which the store visits the rows (rows of equal place in table order). The
  source asks for no order (\<^verbatim>\<open>findFirst\<close> without \<^verbatim>\<open>orderBy\<close>), so which of several
  matching rows comes first is the store's own choice, and \<open>userScan\<close> is that choice.
\<close>

record store =
  users :: "User list"
  assets :: "Asset list"
  nextUserId :: int
  nextAssetId :: int
  userScan :: "string \<Rightarrow> string \<Rightarrow> User \<Rightarrow> nat"

text \<open>
  The Prisma schema (\<^verbatim>\<open>backend/prisma/schema.prisma\<close>) and the Prisma client are not
  among the sources. The operations of this subsection are the client calls the
  controllers make, with the schema the spec and the calls themselves describe: numeric
  primary keys assigned by the store, name, type and symbol required strings, notes an
  optional string, \<open>createdAt\<close> set by the store on insert, the pair (userId, symbol)
  unique (the compound key \<^verbatim>\<open>userId_symbol\<close> the controller queries), userId a foreign
  reference to a user, email and username unique.
\<close>

text \<open>
  Modelled from the spec: the client's check of a value against a required string column
  and against the optional string column; a value of the wrong type is rejected before it
  reaches the database. (The handlers replace undefined before they pass a value on, so
  the case of undefined is never reached.)
\<close>

fun as_string :: "jsval \<Rightarrow> exn + string" where
  "as_string (JStr s) = Inr s"
| "as_string _ = Inl PrismaValidationError"

fun as_optional_string :: "jsval \<Rightarrow> exn + string option" where
  "as_optional_string (JStr s) = Inr (Some s)"
| "as_optional_string JNull = Inr None"
| "as_optional_string JUndefined = Inr None"
| "as_optional_string _ = Inl PrismaValidationError"

text \<open>
  Modelled from the spec:
  \<^verbatim>\<open>findMany({ where: { userId }, orderBy: { createdAt: 'desc' } })\<close>. The order of two
  rows with the same creation time is the store's choice; here they keep the table's
  order.
\<close>

definition asset_findMany :: "int \<Rightarrow> store \<Rightarrow> Asset list" where
  "asset_findMany uid s =
     sort_key (\<lambda>a. - asset_createdAt a) (filter (\<lambda>a. asset_userId a = uid) (assets s))"

text \<open>
  Modelled from the spec: \<^verbatim>\<open>findUnique({ where: { userId_symbol: { userId, symbol } } })\<close>,
  the row with that owner and symbol, if any.
\<close>

definition asset_findUnique_userId_symbol :: "int \<Rightarrow> string \<Rightarrow> store \<Rightarrow> Asset option" where
  "asset_findUnique_userId_symbol uid normalized s =
     find (\<lambda>a. asset_userId a = uid \<and> asset_symbol a = normalized) (assets s)"

text \<open>
  Modelled from the spec: \<^verbatim>\<open>findUnique({ where: { id: assetId } })\<close>, the row with that
  id, if any; the client rejects NaN.
\<close>

definition asset_findUnique_id :: "int option \<Rightarrow> store \<Rightarrow> exn + Asset option" where
  "asset_findUnique_id assetId s =
     (case assetId of
        None \<Rightarrow> Inl PrismaValidationError
      | Some i \<Rightarrow> Inr (find (\<lambda>a. asset_id a = i) (assets s)))"

text \<open>
  Modelled from the spec: \<^verbatim>\<open>create({ data: { userId, symbol, name, type, notes } })\<close> at
  time \<open>now\<close>. The insert is rejected when the owner already has the symbol and when the
  owner is not a user; otherwise the new row gets the next id and is appended.
\<close>

definition asset_create ::
  "int \<Rightarrow> int \<Rightarrow> string \<Rightarrow> jsval \<Rightarrow> jsval \<Rightarrow> jsval \<Rightarrow> store \<Rightarrow> exn + (Asset \<times> store)" where
  "asset_create now uid normalized name_v type_v notes_v s =
     (case as_string name_v of Inl e \<Rightarrow> Inl e | Inr n \<Rightarrow>
      (case as_string type_v of Inl e \<Rightarrow> Inl e | Inr t \<Rightarrow>
      (case as_optional_string notes_v of Inl e \<Rightarrow> Inl e | Inr nt \<Rightarrow>
      if asset_findUnique_userId_symbol uid normalized s \<noteq> None then Inl UniqueConstraintFailed
      else if find (\<lambda>u. user_id u = uid) (users s) = None then Inl ForeignKeyConstraintFailed
      else
        let a = \<lparr>asset_id = nextAssetId s, asset_userId = uid, asset_symbol = normalized,
                 asset_name = n, asset_type = t, asset_notes = nt, asset_createdAt = now\<rparr>
        in Inr (a, s\<lparr>assets := assets s @ [a], nextAssetId := nextAssetId s + 1\<rparr>))))"

text \<open>
  Modelled from the spec:
  \<^verbatim>\<open>update({ where: { id }, data: { name, type, notes } })\<close>: the row with the id gets the
  three columns of \<open>data\<close>; the call throws when no row has the id.
\<close>

definition set_columns :: "string \<Rightarrow> string \<Rightarrow> string option \<Rightarrow> Asset \<Rightarrow> Asset" where
  "set_columns n t nt a = a\<lparr>asset_name := n, asset_type := t, asset_notes := nt\<rparr>"

definition asset_update ::
  "int option \<Rightarrow> jsval \<Rightarrow> jsval \<Rightarrow> jsval \<Rightarrow> store \<Rightarrow> exn + (Asset \<times> store)" where
  "asset_update assetId name_v type_v notes_v s =
     (case assetId of None \<Rightarrow> Inl PrismaValidationError | Some i \<Rightarrow>
      (case as_string name_v of Inl e \<Rightarrow> Inl e | Inr n \<Rightarrow>
      (case as_string type_v of Inl e \<Rightarrow> Inl e | Inr t \<Rightarrow>
      (case as_optional_string notes_v of Inl e \<Rightarrow> Inl e | Inr nt \<Rightarrow>
      (case find (\<lambda>a. asset_id a = i) (assets s) of
        None \<Rightarrow> Inl RecordNotFound
      | Some a \<Rightarrow>
          Inr (set_columns n t nt a,
               s\<lparr>assets := map (\<lambda>r. if asset_id r = i then set_columns n t nt r else r)
                                (assets s)\<rparr>))))))"

text \<open>
  Modelled from the spec: \<^verbatim>\<open>delete({ where: { id } })\<close> removes the row with the id and
  throws when no row has it.
\<close>

definition asset_delete :: "int option \<Rightarrow> store \<Rightarrow> exn + store" where
  "asset_delete assetId s =
     (case assetId of None \<Rightarrow> Inl PrismaValidationError | Some i \<Rightarrow>
      (case find (\<lambda>a. asset_id a = i) (assets s) of
        None \<Rightarrow> Inl RecordNotFound
      | Some a \<Rightarrow> Inr (s\<lparr>assets := filter (\<lambda>r. asset_id r \<noteq> i) (assets s)\<rparr>)))"

subsection \<open>The asset controller\<close>

text \<open>The \<^verbatim>\<open>catch\<close> block of every handler.\<close>

definition server_error :: "store \<Rightarrow> response \<times> store" where
  "server_error s = (Response 500 (ErrorJson MsgServerError), s)"

definition getAssets :: "request \<Rightarrow> store \<Rightarrow> response \<times> store" where
  "getAssets req s =
     (case req_userId req of
        None \<Rightarrow> (Response 401 (ErrorJson MsgUnauthorized), s)
      | Some uid \<Rightarrow>
          if uid = 0 then (Response 401 (ErrorJson MsgUnauthorized), s)
          else (Response 200 (AssetsJson (asset_findMany uid s)), s))"

text \<open>
  addAsset awaits the store twice: the look-up of an existing (userId, symbol) and the
  insert. Other requests run between the two; \<open>others\<close> is what they do to the store in
  that window. \<open>addAsset\<close> is the handler running alone.
\<close>

definition addAsset_interleaved ::
  "(store \<Rightarrow> store) \<Rightarrow> int \<Rightarrow> request \<Rightarrow> store \<Rightarrow> response \<times> store" where
  "addAsset_interleaved others now req s =
     (case req_userId req of
        None \<Rightarrow> (Response 401 (ErrorJson MsgUnauthorized), s)
      | Some uid \<Rightarrow>
          if uid = 0 then (Response 401 (ErrorJson MsgUnauthorized), s)
          else
            let symbol = field req ''symbol''; name_v = field req ''name'';
                type_v = field req ''type''; notes = field req ''notes''
            in
              if \<not> truthy symbol \<or> \<not> truthy name_v \<or> \<not> truthy type_v
              then (Response 400 (ErrorJson MsgAssetFieldsRequired), s)
              else
                (case call_toUpperCase symbol of
                   Inl e \<Rightarrow> server_error s
                 | Inr normalized \<Rightarrow>
                     (case asset_findUnique_userId_symbol uid normalized s of
                        Some existingAsset \<Rightarrow>
                          (Response 400 (ErrorJson MsgAssetAlreadyListed), s)
                      | None \<Rightarrow>
                          (case asset_create now uid normalized name_v type_v
                                  (js_or notes JNull) (others s) of
                             Inl e \<Rightarrow> server_error (others s)
                           | Inr (a, s') \<Rightarrow>
                               (Response 201 (MessageAssetJson MsgAssetAdded a), s')))))"

definition addAsset :: "int \<Rightarrow> request \<Rightarrow> store \<Rightarrow> response \<times> store" where
  "addAsset now req s = addAsset_interleaved (\<lambda>s. s) now req s"

definition updateAsset :: "request \<Rightarrow> store \<Rightarrow> response \<times> store" where
  "updateAsset req s =
     (let assetId = parseInt (params_id req) in
      case req_userId req of
        None \<Rightarrow> (Response 401 (ErrorJson MsgUnauthorized), s)
      | Some uid \<Rightarrow>
          if uid = 0 then (Response 401 (ErrorJson MsgUnauthorized), s)
          else
            let name_v = field req ''name''; type_v = field req ''type'';
                notes = field req ''notes''
            in
              (case asset_findUnique_id assetId s of
                 Inl e \<Rightarrow> server_error s
               | Inr None \<Rightarrow> (Response 404 (ErrorJson MsgAssetNotFound), s)
               | Inr (Some a) \<Rightarrow>
                   if asset_userId a \<noteq> uid
                   then (Response 404 (ErrorJson MsgAssetNotFound), s)
                   else
                     (case asset_update assetId
                             (js_or name_v (JStr (asset_name a)))
                             (js_or type_v (JStr (asset_type a)))
                             (if notes \<noteq> JUndefined then notes
                              else (case asset_notes a of None \<Rightarrow> JNull | Some n \<Rightarrow> JStr n))
                             s of
                        Inl e \<Rightarrow> server_error s
                      | Inr (updatedAsset, s') \<Rightarrow>
                          (Response 200 (MessageAssetJson MsgAssetUpdated updatedAsset), s'))))"

definition deleteAsset :: "request \<Rightarrow> store \<Rightarrow> response \<times> store" where
  "deleteAsset req s =
     (let assetId = parseInt (params_id req) in
      case req_userId req of
        None \<Rightarrow> (Response 401 (ErrorJson MsgUnauthorized), s)
      | Some uid \<Rightarrow>
          if uid = 0 then (Response 401 (ErrorJson MsgUnauthorized), s)
          else
            (case asset_findUnique_id assetId s of
               Inl e \<Rightarrow> server_error s
             | Inr None \<Rightarrow> (Response 404 (ErrorJson MsgAssetNotFound), s)
             | Inr (Some a) \<Rightarrow>
                 if asset_userId a \<noteq> uid
                 then (Response 404 (ErrorJson MsgAssetNotFound), s)
                 else
                   (case asset_delete assetId s of
                      Inl e \<Rightarrow> server_error s
                    | Inr s' \<Rightarrow> (Response 200 (MessageJson MsgAssetDeleted), s'))))"

subsection \<open>The authentication controller\<close>

text \<open>
  \<^verbatim>\<open>utils/password\<close> (hashPassword, comparePassword) is not among the sources, and
  \<^verbatim>\<open>generateToken\<close> signs with an external library: the three are parameters of the
  handlers. Each takes the value the handler passes and may throw.
\<close>

record primitives =
  hashPassword :: "jsval \<Rightarrow> exn + string"
  comparePassword :: "jsval \<Rightarrow> string \<Rightarrow> exn + bool"
  generateToken :: "JwtPayload \<Rightarrow> exn + string"

text \<open>
  Modelled from the spec:
  \<^verbatim>\<open>findFirst({ where: { OR: [{ email: e }, { username: n }] } })\<close>: of the rows whose
  email is \<open>e\<close> or whose username is \<open>n\<close>, the one the store visits first (\<open>userScan\<close>);
  none when no row matches. The client rejects a filter value that is not a string.
\<close>

definition user_findFirst_email_or_username ::
  "jsval \<Rightarrow> jsval \<Rightarrow> store \<Rightarrow> exn + User option" where
  "user_findFirst_email_or_username email_v username_v s =
     (case as_string email_v of Inl e \<Rightarrow> Inl e | Inr em \<Rightarrow>
      (case as_string username_v of Inl e \<Rightarrow> Inl e | Inr un \<Rightarrow>
       Inr (find (\<lambda>u. user_email u = em \<or> user_username u = un)
              (sort_key (userScan s em un) (users s)))))"






definition login :: "primitives \<Rightarrow> request \<Rightarrow> store \<Rightarrow> response \<times> store" where
  "login prims req s =
     (let emailOrUsername = field req ''emailOrUsername''; password = field req ''password''
      in
        if \<not> truthy emailOrUsername \<or> \<not> truthy password
        then (Response 400 (ErrorJson MsgLoginFieldsRequired), s)
        else
          (case user_findFirst_email_or_username emailOrUsername emailOrUsername s of
             Inl e \<Rightarrow> server_error s
           | Inr None \<Rightarrow> (Response 401 (ErrorJson MsgBadCredentials), s)
           | Inr (Some u) \<Rightarrow>
               (case comparePassword prims password (user_password u) of
                  Inl e \<Rightarrow> server_error s
                | Inr isPasswordValid \<Rightarrow>
                    if \<not> isPasswordValid
                    then (Response 401 (ErrorJson MsgBadCredentials), s)
                    else
                      (case generateToken prims
                              \<lparr>userId = user_id u, email = user_email u,
                               username = user_username u\<rparr> of
                         Inl e \<Rightarrow> server_error s
                       | Inr token \<Rightarrow>
                           (Response 200
                              (LoginJson MsgLoggedIn (user_id u) (user_email u)
                                 (user_username u) token), s)))))"

subsection \<open>Sample data\<close>

text \<open>Two users, their assets, stand-ins for the three primitives, and sample requests.\<close>

definition alice :: User where
  "alice = \<lparr>user_id = 1, user_email = ''a@x.com'', user_username = ''alice'',
            user_password = ''hash-secret1'', user_createdAt = 10\<rparr>"

definition bob :: User where
  "bob = \<lparr>user_id = 2, user_email = ''b@x.com'', user_username = ''bob'',
          user_password = ''hash-hunter22'', user_createdAt = 20\<rparr>"

definition aapl :: Asset where
  "aapl = \<lparr>asset_id = 1, asset_userId = 1, asset_symbol = ''AAPL'', asset_name = ''Apple'',
           asset_type = ''stock'', asset_notes = Some ''core holding'', asset_createdAt = 100\<rparr>"

definition btc :: Asset where
  "btc = \<lparr>asset_id = 2, asset_userId = 2, asset_symbol = ''BTC'', asset_name = ''Bitcoin'',
          asset_type = ''crypto'', asset_notes = None, asset_createdAt = 200\<rparr>"

definition msft :: Asset where
  "msft = \<lparr>asset_id = 3, asset_userId = 1, asset_symbol = ''MSFT'', asset_name = ''Microsoft'',
           asset_type = ''stock'', asset_notes = None, asset_createdAt = 300\<rparr>"

definition tsla :: Asset where
  "tsla = \<lparr>asset_id = 4, asset_userId = 1, asset_symbol = ''TSLA'', asset_name = ''Tesla'',
           asset_type = ''stock'', asset_notes = None, asset_createdAt = 400\<rparr>"

definition aapl_renamed :: Asset where
  "aapl_renamed = \<lparr>asset_id = 1, asset_userId = 1, asset_symbol = ''AAPL'',
     asset_name = ''Apple Inc'', asset_type = ''stock'', asset_notes = Some ''core holding'',
     asset_createdAt = 100\<rparr>"

definition aapl_cleared :: Asset where
  "aapl_cleared = \<lparr>asset_id = 1, asset_userId = 1, asset_symbol = ''AAPL'',
     asset_name = ''Apple'', asset_type = ''stock'', asset_notes = Some [],
     asset_createdAt = 100\<rparr>"

text \<open>A store that visits the rows holding the queried email before the others.\<close>

definition email_term_first :: "string \<Rightarrow> string \<Rightarrow> User \<Rightarrow> nat" where
  "email_term_first e n u = (if user_email u = e then 0 else 1)"

definition demo_store :: store where
  "demo_store = \<lparr>users = [alice, bob], assets = [aapl, btc, msft],
                 nextUserId = 3, nextAssetId = 4,
     userScan = email_term_first\<rparr>"

definition store_without_btc :: store where
  "store_without_btc = \<lparr>users = [alice, bob], assets = [aapl, msft],
                        nextUserId = 3, nextAssetId = 4,
     userScan = email_term_first\<rparr>"

definition store_with_tsla :: store where
  "store_with_tsla = \<lparr>users = [alice, bob], assets = [aapl, btc, msft, tsla],
                      nextUserId = 3, nextAssetId = 5,
     userScan = email_term_first\<rparr>"

definition store_renamed :: store where
  "store_renamed = \<lparr>users = [alice, bob], assets = [aapl_renamed, btc, msft],
                    nextUserId = 3, nextAssetId = 4,
     userScan = email_term_first\<rparr>"

definition store_cleared :: store where
  "store_cleared = \<lparr>users = [alice, bob], assets = [aapl_cleared, btc, msft],
                    nextUserId = 3, nextAssetId = 4,
     userScan = email_term_first\<rparr>"

definition alice_claims :: JwtPayload where
  "alice_claims = \<lparr>userId = 1, email = ''a@x.com'', username = ''alice''\<rparr>"

definition carol_claims :: JwtPayload where
  "carol_claims = \<lparr>userId = 7, email = ''c@x.com'', username = ''carol''\<rparr>"

definition zero_claims :: JwtPayload where
  "zero_claims = \<lparr>userId = 0, email = ''z@x.com'', username = ''zero''\<rparr>"

definition alice_on_btc :: request where
  "alice_on_btc = \<lparr>user = Some alice_claims, params_id = ''2'',
                   body = [(''name'', JStr ''Mine now'')]\<rparr>"

definition alice_list :: request where
  "alice_list = \<lparr>user = Some alice_claims, params_id = [], body = []\<rparr>"

definition carol_list :: request where
  "carol_list = \<lparr>user = Some carol_claims, params_id = [], body = []\<rparr>"

definition anonymous_request :: request where
  "anonymous_request = \<lparr>user = None, params_id = ''1'',
     body = [(''symbol'', JStr ''tsla''), (''name'', JStr ''Tesla''), (''type'', JStr ''stock'')]\<rparr>"

definition zero_id_request :: request where
  "zero_id_request = \<lparr>user = Some zero_claims, params_id = ''1'',
     body = [(''symbol'', JStr ''tsla''), (''name'', JStr ''Tesla''), (''type'', JStr ''stock'')]\<rparr>"

definition add_tsla_lower :: request where
  "add_tsla_lower = \<lparr>user = Some alice_claims, params_id = [],
     body = [(''symbol'', JStr ''tsla''), (''name'', JStr ''Tesla''), (''type'', JStr ''stock'')]\<rparr>"

definition add_tsla_upper :: request where
  "add_tsla_upper = \<lparr>user = Some alice_claims, params_id = [],
     body = [(''symbol'', JStr ''TSLA''), (''name'', JStr ''Tesla Inc''),
             (''type'', JStr ''stock''), (''notes'', JStr ''second tab'')]\<rparr>"

definition add_aapl_lower :: request where
  "add_aapl_lower = \<lparr>user = Some alice_claims, params_id = [],
     body = [(''symbol'', JStr ''aapl''), (''name'', JStr ''Apple again''),
             (''type'', JStr ''stock'')]\<rparr>"

definition add_tsla_empty_notes :: request where
  "add_tsla_empty_notes = \<lparr>user = Some alice_claims, params_id = [],
     body = [(''symbol'', JStr ''tsla''), (''name'', JStr ''Tesla''), (''type'', JStr ''stock''),
             (''notes'', JStr [])]\<rparr>"

text \<open>What a second request of Alice's, adding TSLA, does to the store.\<close>

definition concurrent_add :: "store \<Rightarrow> store" where
  "concurrent_add s = snd (addAsset 399 add_tsla_upper s)"

definition rename_aapl :: request where
  "rename_aapl = \<lparr>user = Some alice_claims, params_id = ''1'',
     body = [(''name'', JStr ''Apple Inc'')]\<rparr>"

definition clear_aapl_notes :: request where
  "clear_aapl_notes = \<lparr>user = Some alice_claims, params_id = ''1'',
     body = [(''notes'', JStr [])]\<rparr>"

fun demo_hash :: "jsval \<Rightarrow> exn + string" where
  "demo_hash (JStr p) = Inr (''hash-'' @ p)"
| "demo_hash _ = Inl TypeError"

fun demo_compare :: "jsval \<Rightarrow> string \<Rightarrow> exn + bool" where
  "demo_compare (JStr p) h = Inr (''hash-'' @ p = h)"
| "demo_compare _ h = Inl TypeError"

definition demo_sign :: "JwtPayload \<Rightarrow> exn + string" where
  "demo_sign p = Inr (''token-'' @ username p)"

definition demo_prims :: primitives where
  "demo_prims = \<lparr>hashPassword = demo_hash, comparePassword = demo_compare,
                 generateToken = demo_sign\<rparr>"

definition login_unknown :: request where
  "login_unknown = \<lparr>user = None, params_id = [],
     body = [(''emailOrUsername'', JStr ''mallory''), (''password'', JStr ''secret1'')]\<rparr>"

definition login_wrong_password :: request where
  "login_wrong_password = \<lparr>user = None, params_id = [],
     body = [(''emailOrUsername'', JStr ''alice''), (''password'', JStr ''guess99'')]\<rparr>"




section \<open>Properties\<close>

subsection \<open>Evaluation and look-up lemmas\<close>

lemmas sample_defs = alice_def bob_def aapl_def btc_def msft_def demo_store_def
  store_without_btc_def alice_claims_def

lemmas request_defs = req_userId_def field_def parseInt_def js_whitespace_def is_digit_def
  digit_value_def digits_value_def

lemma upper_samples:
  "toUpperCase ''tsla'' = ''TSLA''" "toUpperCase ''TSLA'' = ''TSLA''"
  "toUpperCase ''aapl'' = ''AAPL''"
  by code_simp+

lemmas add_eval = addAsset_def addAsset_interleaved_def asset_findUnique_userId_symbol_def
  asset_create_def js_or_def server_error_def Let_def upper_samples

lemmas update_eval = updateAsset_def asset_findUnique_id_def asset_update_def set_columns_def
  js_or_def Let_def

lemma find_by_id_distinct:
  "distinct (map asset_id xs) \<Longrightarrow> a \<in> set xs \<Longrightarrow>
   find (\<lambda>r. asset_id r = asset_id a) xs = Some a"
  by (induction xs) (auto simp: rev_image_eqI)

lemma find_by_id_absent:
  "i \<notin> asset_id ` set xs \<Longrightarrow> find (\<lambda>r. asset_id r = i) xs = None"
  by (induction xs) auto

lemma find_by_id_map:
  "find (\<lambda>r. asset_id r = i)
     (map (\<lambda>r. if asset_id r = i then set_columns n t nt r else r) xs)
   = map_option (set_columns n t nt) (find (\<lambda>r. asset_id r = i) xs)"
  by (induction xs) (auto simp: set_columns_def)

lemma filter_other_ids_map:
  "filter (\<lambda>r. asset_id r \<noteq> i)
     (map (\<lambda>r. if asset_id r = i then set_columns n t nt r else r) xs)
   = filter (\<lambda>r. asset_id r \<noteq> i) xs"
  by (induction xs) (auto simp: set_columns_def)

lemma upper_char_table: "\<forall>c. upper_char c = capital_of c"
  by code_simp

lemma toUpperCase_table: "toUpperCase s = uppercase_by_table s"
  using upper_char_table by (simp add: toUpperCase_def uppercase_by_table_def)



lemma find_pair_None_iff:
  "asset_findUnique_userId_symbol uid sy s = None \<longleftrightarrow>
   (\<forall>r \<in> set (assets s). \<not> (asset_userId r = uid \<and> asset_symbol r = sy))"
  by (auto simp: asset_findUnique_userId_symbol_def find_None_iff)

subsection \<open>The paths of addAsset and updateAsset\<close>

text \<open>A 201 from addAsset fixes the whole path the handler took.\<close>

lemma addAsset_created_cases:
  assumes "addAsset now req s = (Response 201 b, s')"
  shows "\<exists>uid sy n t nt.
           req_userId req = Some uid \<and> uid \<noteq> 0 \<and>
           field req ''symbol'' = JStr sy \<and> sy \<noteq> [] \<and>
           asset_findUnique_userId_symbol uid (toUpperCase sy) s = None \<and>
           as_string (field req ''name'') = Inr n \<and>
           as_string (field req ''type'') = Inr t \<and>
           as_optional_string (js_or (field req ''notes'') JNull) = Inr nt \<and>
           b = MessageAssetJson MsgAssetAdded
                 \<lparr>asset_id = nextAssetId s, asset_userId = uid, asset_symbol = toUpperCase sy,
                  asset_name = n, asset_type = t, asset_notes = nt, asset_createdAt = now\<rparr> \<and>
           s' = s\<lparr>assets := assets s @
                    [\<lparr>asset_id = nextAssetId s, asset_userId = uid,
                      asset_symbol = toUpperCase sy, asset_name = n, asset_type = t,
                      asset_notes = nt, asset_createdAt = now\<rparr>],
                  nextAssetId := nextAssetId s + 1\<rparr>"
proof -
  from assms obtain uid where uid: "req_userId req = Some uid" "uid \<noteq> 0"
    by (auto simp: addAsset_def addAsset_interleaved_def split: option.splits if_splits)
  from assms uid have tr: "truthy (field req ''symbol'')" "truthy (field req ''name'')"
      "truthy (field req ''type'')"
    by (auto simp: addAsset_def addAsset_interleaved_def Let_def split: if_splits)
  from assms uid tr obtain sy where sy: "field req ''symbol'' = JStr sy"
    by (cases "field req ''symbol''")
       (auto simp: addAsset_def addAsset_interleaved_def Let_def server_error_def)
  with tr have ne: "sy \<noteq> []" by simp
  from assms uid tr sy have fresh: "asset_findUnique_userId_symbol uid (toUpperCase sy) s = None"
    by (auto simp: addAsset_def addAsset_interleaved_def Let_def split: option.splits)
  from assms uid tr sy fresh show ?thesis
    using ne
    by (auto simp: addAsset_def addAsset_interleaved_def Let_def server_error_def
        asset_create_def split: sum.splits if_splits)
qed

text \<open>addAsset either leaves the store alone or answers 201.\<close>

lemma addAsset_store_cases:
  "snd (addAsset now req s) = s \<or>
   (\<exists>b. addAsset now req s = (Response 201 b, snd (addAsset now req s)))"
  unfolding addAsset_def addAsset_interleaved_def server_error_def Let_def
  by (auto split: option.splits sum.splits prod.splits)

text \<open>The success path of updateAsset, forwards and backwards.\<close>

lemma updateAsset_owned:
  assumes "req_userId req = Some uid" and "uid \<noteq> 0"
    and "parseInt (params_id req) = Some i"
    and "find (\<lambda>r. asset_id r = i) (assets s) = Some a" and "asset_userId a = uid"
    and "as_string (js_or (field req ''name'') (JStr (asset_name a))) = Inr n"
    and "as_string (js_or (field req ''type'') (JStr (asset_type a))) = Inr t"
    and "as_optional_string (if field req ''notes'' \<noteq> JUndefined then field req ''notes''
              else (case asset_notes a of None \<Rightarrow> JNull | Some x \<Rightarrow> JStr x)) = Inr nt"
  shows "updateAsset req s =
           (Response 200 (MessageAssetJson MsgAssetUpdated (set_columns n t nt a)),
            s\<lparr>assets := map (\<lambda>r. if asset_id r = i then set_columns n t nt r else r)
                            (assets s)\<rparr>)"
  using assms by (simp add: updateAsset_def asset_findUnique_id_def asset_update_def)

lemma updateAsset_ok_cases:
  assumes "updateAsset req s = (Response 200 b, s')"
  shows "\<exists>uid i a n t nt.
           req_userId req = Some uid \<and> uid \<noteq> 0 \<and> parseInt (params_id req) = Some i \<and>
           find (\<lambda>r. asset_id r = i) (assets s) = Some a \<and> asset_userId a = uid \<and>
           as_string (js_or (field req ''name'') (JStr (asset_name a))) = Inr n \<and>
           as_string (js_or (field req ''type'') (JStr (asset_type a))) = Inr t \<and>
           as_optional_string (if field req ''notes'' \<noteq> JUndefined then field req ''notes''
              else (case asset_notes a of None \<Rightarrow> JNull | Some x \<Rightarrow> JStr x)) = Inr nt \<and>
           b = MessageAssetJson MsgAssetUpdated (set_columns n t nt a) \<and>
           s' = s\<lparr>assets := map (\<lambda>r. if asset_id r = i then set_columns n t nt r else r)
                                 (assets s)\<rparr>"
  using assms
  unfolding updateAsset_def asset_findUnique_id_def asset_update_def server_error_def Let_def
  by (auto split: option.splits if_splits sum.splits)

text \<open>The sample runs the examples share.\<close>

lemma run_add_tsla:
  "addAsset 400 add_tsla_lower demo_store =
     (Response 201 (MessageAssetJson MsgAssetAdded tsla), store_with_tsla)"
  by (simp add: add_tsla_lower_def tsla_def store_with_tsla_def sample_defs request_defs add_eval)

lemma run_rename:
  "updateAsset rename_aapl demo_store =
     (Response 200 (MessageAssetJson MsgAssetUpdated aapl_renamed), store_renamed)"
  by (simp add: rename_aapl_def aapl_renamed_def store_renamed_def sample_defs request_defs
      update_eval)

lemma run_clear:
  "updateAsset clear_aapl_notes demo_store =
     (Response 200 (MessageAssetJson MsgAssetUpdated aapl_cleared), store_cleared)"
  by (simp add: clear_aapl_notes_def aapl_cleared_def store_cleared_def sample_defs request_defs
      update_eval)

subsection \<open>Ownership is masked as absence\<close>

text \<open>
  C1. Let the asset table have distinct ids, let \<open>a\<close> be a row of it whose owner is not
  the caller \<open>u1\<close> (an authenticated user, so \<open>u1\<close> is not 0), and let the route parameter
  parse to the id of \<open>a\<close>. Then updateAsset and deleteAsset both answer 404 with the
  asset-not-found message and return the store as it was, so \<open>a\<close> is untouched; and on
  every store in which no row has that id the two handlers send the very same response.
\<close>

theorem foreign_asset_reported_not_found:
  assumes "distinct (map asset_id (assets s))"
    and "a \<in> set (assets s)"
    and "req_userId req = Some u1" and "u1 \<noteq> 0"
    and "asset_userId a \<noteq> u1"
    and "parseInt (params_id req) = Some (asset_id a)"
  shows "updateAsset req s = (Response 404 (ErrorJson MsgAssetNotFound), s) \<and>
         deleteAsset req s = (Response 404 (ErrorJson MsgAssetNotFound), s) \<and>
         (\<forall>s0. asset_id a \<notin> asset_id ` set (assets s0) \<longrightarrow>
               fst (updateAsset req s0) = fst (updateAsset req s) \<and>
               fst (deleteAsset req s0) = fst (deleteAsset req s))"
proof -
  have f: "find (\<lambda>r. asset_id r = asset_id a) (assets s) = Some a"
    using assms(1,2) by (rule find_by_id_distinct)
  have u: "updateAsset req s = (Response 404 (ErrorJson MsgAssetNotFound), s)"
    using assms(3-6) f by (simp add: updateAsset_def asset_findUnique_id_def)
  have d: "deleteAsset req s = (Response 404 (ErrorJson MsgAssetNotFound), s)"
    using assms(3-6) f by (simp add: deleteAsset_def asset_findUnique_id_def)
  have "fst (updateAsset req s0) = Response 404 (ErrorJson MsgAssetNotFound) \<and>
        fst (deleteAsset req s0) = Response 404 (ErrorJson MsgAssetNotFound)"
    if "asset_id a \<notin> asset_id ` set (assets s0)" for s0
    using assms(3-6) find_by_id_absent[OF that]
    by (simp add: updateAsset_def deleteAsset_def asset_findUnique_id_def)
  with u d show ?thesis by simp
qed

text \<open>
  Alice (user 1) names asset 2, which is Bob's: 404 and the store unchanged, and the same
  response as on the store that has no asset 2.
\<close>

theorem foreign_asset_reported_not_found_witness:
  "distinct (map asset_id (assets demo_store)) \<and> btc \<in> set (assets demo_store) \<and>
   req_userId alice_on_btc = Some 1 \<and> asset_userId btc = 2 \<and>
   parseInt (params_id alice_on_btc) = Some (asset_id btc) \<and>
   updateAsset alice_on_btc demo_store =
     (Response 404 (ErrorJson MsgAssetNotFound), demo_store) \<and>
   deleteAsset alice_on_btc demo_store =
     (Response 404 (ErrorJson MsgAssetNotFound), demo_store) \<and>
   asset_id btc \<notin> asset_id ` set (assets store_without_btc) \<and>
   fst (updateAsset alice_on_btc store_without_btc) = fst (updateAsset alice_on_btc demo_store) \<and>
   fst (deleteAsset alice_on_btc store_without_btc) = fst (deleteAsset alice_on_btc demo_store)"
proof -
  have h1: "distinct (map asset_id (assets demo_store))" by (simp add: sample_defs)
  have h2: "btc \<in> set (assets demo_store)" by (simp add: demo_store_def)
  have h3: "req_userId alice_on_btc = Some 1"
    by (simp add: alice_on_btc_def sample_defs request_defs)
  have h4: "(1::int) \<noteq> 0" by simp
  have h5: "asset_userId btc \<noteq> 1" by (simp add: btc_def)
  have h6: "parseInt (params_id alice_on_btc) = Some (asset_id btc)"
    by (simp add: alice_on_btc_def sample_defs request_defs)
  have h7: "asset_id btc \<notin> asset_id ` set (assets store_without_btc)"
    by (simp add: sample_defs)
  note c = foreign_asset_reported_not_found[OF h1 h2 h3 h4 h5 h6]
  from c h7 have
    "fst (updateAsset alice_on_btc store_without_btc) = fst (updateAsset alice_on_btc demo_store) \<and>
     fst (deleteAsset alice_on_btc store_without_btc) = fst (deleteAsset alice_on_btc demo_store)"
    by blast
  with c h1 h2 h3 h6 h7 show ?thesis by (simp add: btc_def)
qed

subsection \<open>A rejected insert\<close>

text \<open>
  The look-up for TSLA on the sample store finds nothing; a second request inserts TSLA
  for the same user before the insert; the insert is rejected by the uniqueness
  constraint, and the handler answers 500 with the server-error message, which is not the
  400 of the look-up's conflict branch.
\<close>

theorem constraint_violation_not_conflict:
  "asset_findUnique_userId_symbol 1 (toUpperCase ''tsla'') demo_store = None \<and>
   asset_create 400 1 (toUpperCase ''tsla'') (JStr ''Tesla'') (JStr ''stock'') JNull
     (concurrent_add demo_store) = Inl UniqueConstraintFailed \<and>
   fst (addAsset_interleaved concurrent_add 400 add_tsla_lower demo_store) =
     Response 500 (ErrorJson MsgServerError) \<and>
   fst (addAsset_interleaved concurrent_add 400 add_tsla_lower demo_store) \<noteq>
     Response 400 (ErrorJson MsgAssetAlreadyListed)"
  by (simp add: add_tsla_lower_def add_tsla_upper_def concurrent_add_def request_defs
      sample_defs add_eval)

text \<open>
  C2, as the code has it. When the caller is authenticated, symbol is a non-empty string,
  name and type are present, the look-up finds no asset with (userId, uppercased symbol),
  and the insert, on the store as the other requests left it, is rejected by the
  uniqueness constraint, addAsset answers 500 with the server-error message (the handler's
  catch block) and writes nothing itself: the store is the one the other requests left.
\<close>

theorem constraint_violation_is_server_error:
  assumes "req_userId req = Some uid" and "uid \<noteq> 0"
    and "field req ''symbol'' = JStr sy" and "sy \<noteq> []"
    and "truthy (field req ''name'')" and "truthy (field req ''type'')"
    and "asset_findUnique_userId_symbol uid (toUpperCase sy) s = None"
    and "asset_create now uid (toUpperCase sy) (field req ''name'') (field req ''type'')
           (js_or (field req ''notes'') JNull) (others s) = Inl UniqueConstraintFailed"
  shows "addAsset_interleaved others now req s =
           (Response 500 (ErrorJson MsgServerError), others s)"
  using assms by (simp add: addAsset_interleaved_def server_error_def)

theorem constraint_violation_is_server_error_witness:
  "req_userId add_tsla_lower = Some 1 \<and> field add_tsla_lower ''symbol'' = JStr ''tsla'' \<and>
   asset_findUnique_userId_symbol 1 (toUpperCase ''tsla'') demo_store = None \<and>
   asset_create 400 1 (toUpperCase ''tsla'') (field add_tsla_lower ''name'')
     (field add_tsla_lower ''type'') (js_or (field add_tsla_lower ''notes'') JNull)
     (concurrent_add demo_store) = Inl UniqueConstraintFailed \<and>
   addAsset_interleaved concurrent_add 400 add_tsla_lower demo_store =
     (Response 500 (ErrorJson MsgServerError), concurrent_add demo_store)"
proof -
  have h1: "req_userId add_tsla_lower = Some 1"
    by (simp add: add_tsla_lower_def alice_claims_def req_userId_def)
  have h2: "(1::int) \<noteq> 0" by simp
  have h3: "field add_tsla_lower ''symbol'' = JStr ''tsla''"
    and h5: "truthy (field add_tsla_lower ''name'')"
    and h6: "truthy (field add_tsla_lower ''type'')"
    by (simp_all add: add_tsla_lower_def field_def)
  have h4: "''tsla'' \<noteq> []" by simp
  have h7: "asset_findUnique_userId_symbol 1 (toUpperCase ''tsla'') demo_store = None"
    by (simp add: asset_findUnique_userId_symbol_def upper_samples sample_defs)
  have h8: "asset_create 400 1 (toUpperCase ''tsla'') (field add_tsla_lower ''name'')
     (field add_tsla_lower ''type'') (js_or (field add_tsla_lower ''notes'') JNull)
     (concurrent_add demo_store) = Inl UniqueConstraintFailed"
    by (simp add: concurrent_add_def add_tsla_lower_def add_tsla_upper_def sample_defs
        request_defs add_eval)
  from h1 h3 h7 h8
    constraint_violation_is_server_error[where others = concurrent_add and s = demo_store,
      OF h1 h2 h3 h4 h5 h6 h7 h8]
  show ?thesis by simp
qed

subsection \<open>Symbols are stored in upper case and are unique per owner\<close>

text \<open>
  C3. For an authenticated caller \<open>uid\<close> and a request whose symbol is a non-empty ASCII
  string \<open>sy\<close> and whose name and type are present, write \<open>U\<close> for \<open>sy\<close> with each small
  letter replaced by its capital (\<open>uppercase_by_table sy\<close>):
  \<^item> whenever addAsset answers 201, the asset it returns is the one row appended to the
    table, its symbol is \<open>U\<close>, its owner is \<open>uid\<close>, and no row of that owner had the symbol
    \<open>U\<close> before;
  \<^item> if a row of that owner already has the symbol \<open>U\<close>, addAsset answers 400 with the
    already-listed message and the store is unchanged;
  \<^item> if no such row exists, name and type are strings, notes is falsy or a string and the
    owner is a user of the store, addAsset does answer 201, with such an asset.
\<close>

theorem addAsset_symbol_uppercase_unique:
  assumes uid: "req_userId req = Some uid" "uid \<noteq> 0"
    and sy: "field req ''symbol'' = JStr sy" "sy \<noteq> []"
    and ascii: "is_ascii sy"
    and present: "truthy (field req ''name'')" "truthy (field req ''type'')"
  shows "(\<forall>b s'. addAsset now req s = (Response 201 b, s') \<longrightarrow>
            (\<exists>a. b = MessageAssetJson MsgAssetAdded a \<and>
                 asset_symbol a = uppercase_by_table sy \<and>
                 asset_userId a = uid \<and> assets s' = assets s @ [a] \<and>
                 (\<forall>r \<in> set (assets s).
                    \<not> (asset_userId r = uid \<and> asset_symbol r = uppercase_by_table sy)))) \<and>
         ((\<exists>r \<in> set (assets s).
              asset_userId r = uid \<and> asset_symbol r = uppercase_by_table sy) \<longrightarrow>
            addAsset now req s = (Response 400 (ErrorJson MsgAssetAlreadyListed), s)) \<and>
         ((\<forall>r \<in> set (assets s).
              \<not> (asset_userId r = uid \<and> asset_symbol r = uppercase_by_table sy)) \<and>
          (\<exists>n. field req ''name'' = JStr n) \<and> (\<exists>t. field req ''type'' = JStr t) \<and>
          (\<not> truthy (field req ''notes'') \<or> (\<exists>x. field req ''notes'' = JStr x)) \<and>
          (\<exists>u \<in> set (users s). user_id u = uid) \<longrightarrow>
            (\<exists>a. addAsset now req s =
                   (Response 201 (MessageAssetJson MsgAssetAdded a),
                    s\<lparr>assets := assets s @ [a], nextAssetId := nextAssetId s + 1\<rparr>) \<and>
                 asset_symbol a = uppercase_by_table sy))"
proof (intro conjI allI impI)
  fix b s' assume ok: "addAsset now req s = (Response 201 b, s')"
  from addAsset_created_cases[OF ok] uid sy
  show "\<exists>a. b = MessageAssetJson MsgAssetAdded a \<and>
                 asset_symbol a = uppercase_by_table sy \<and>
                 asset_userId a = uid \<and> assets s' = assets s @ [a] \<and>
                 (\<forall>r \<in> set (assets s).
                    \<not> (asset_userId r = uid \<and> asset_symbol r = uppercase_by_table sy))"
    by (auto simp: find_pair_None_iff toUpperCase_table)
next
  assume "\<exists>r \<in> set (assets s). asset_userId r = uid \<and> asset_symbol r = uppercase_by_table sy"
  then have "asset_findUnique_userId_symbol uid (toUpperCase sy) s \<noteq> None"
    by (auto simp: find_pair_None_iff toUpperCase_table)
  then show "addAsset now req s = (Response 400 (ErrorJson MsgAssetAlreadyListed), s)"
    using uid sy present by (auto simp: addAsset_def addAsset_interleaved_def)
next
  assume h: "(\<forall>r \<in> set (assets s).
              \<not> (asset_userId r = uid \<and> asset_symbol r = uppercase_by_table sy)) \<and>
          (\<exists>n. field req ''name'' = JStr n) \<and> (\<exists>t. field req ''type'' = JStr t) \<and>
          (\<not> truthy (field req ''notes'') \<or> (\<exists>x. field req ''notes'' = JStr x)) \<and>
          (\<exists>u \<in> set (users s). user_id u = uid)"
  then have fresh: "asset_findUnique_userId_symbol uid (toUpperCase sy) s = None"
    by (simp add: find_pair_None_iff toUpperCase_table)
  from h obtain n t where nt: "field req ''name'' = JStr n" "field req ''type'' = JStr t"
    by blast
  from h have "\<exists>nt. as_optional_string (js_or (field req ''notes'') JNull) = Inr nt"
    by (auto simp: js_or_def)
  then obtain x where x: "as_optional_string (js_or (field req ''notes'') JNull) = Inr x" ..
  from h have owner: "find (\<lambda>u. user_id u = uid) (users s) \<noteq> None"
    by (auto simp: find_None_iff)
  have "\<exists>a. addAsset now req s =
                   (Response 201 (MessageAssetJson MsgAssetAdded a),
                    s\<lparr>assets := assets s @ [a], nextAssetId := nextAssetId s + 1\<rparr>) \<and>
                 asset_symbol a = toUpperCase sy"
    using uid sy present fresh nt x owner
    by (auto simp: addAsset_def addAsset_interleaved_def asset_create_def Let_def)
  then show "\<exists>a. addAsset now req s =
                   (Response 201 (MessageAssetJson MsgAssetAdded a),
                    s\<lparr>assets := assets s @ [a], nextAssetId := nextAssetId s + 1\<rparr>) \<and>
                 asset_symbol a = uppercase_by_table sy"
    by (simp add: toUpperCase_table)
qed

text \<open>
  Alice adds "tsla": the stored and returned symbol is "TSLA". Adding "TSLA" afterwards,
  and adding "aapl" when "AAPL" is already hers, both answer 400 and store nothing.
\<close>

theorem addAsset_symbol_uppercase_unique_witness:
  "req_userId add_tsla_lower = Some 1 \<and> field add_tsla_lower ''symbol'' = JStr ''tsla'' \<and>
   is_ascii ''tsla'' \<and> uppercase_by_table ''tsla'' = ''TSLA'' \<and>
   addAsset 400 add_tsla_lower demo_store =
     (Response 201 (MessageAssetJson MsgAssetAdded tsla), store_with_tsla) \<and>
   asset_symbol tsla = ''TSLA'' \<and>
   assets store_with_tsla = assets demo_store @ [tsla] \<and>
   req_userId add_tsla_upper = Some 1 \<and> field add_tsla_upper ''symbol'' = JStr ''TSLA'' \<and>
   is_ascii ''TSLA'' \<and> uppercase_by_table ''TSLA'' = ''TSLA'' \<and>
   addAsset 401 add_tsla_upper store_with_tsla =
     (Response 400 (ErrorJson MsgAssetAlreadyListed), store_with_tsla) \<and>
   req_userId add_aapl_lower = Some 1 \<and> field add_aapl_lower ''symbol'' = JStr ''aapl'' \<and>
   is_ascii ''aapl'' \<and> uppercase_by_table ''aapl'' = ''AAPL'' \<and>
   aapl \<in> set (assets demo_store) \<and> asset_symbol aapl = ''AAPL'' \<and>
   addAsset 401 add_aapl_lower demo_store =
     (Response 400 (ErrorJson MsgAssetAlreadyListed), demo_store)"
proof -
  have u: "req_userId add_tsla_lower = Some 1" "req_userId add_tsla_upper = Some 1"
    "req_userId add_aapl_lower = Some 1"
    by (simp_all add: add_tsla_lower_def add_tsla_upper_def add_aapl_lower_def alice_claims_def
        req_userId_def)
  have n1: "(1::int) \<noteq> 0" by simp
  have f1: "field add_tsla_lower ''symbol'' = JStr ''tsla''"
    "truthy (field add_tsla_lower ''name'')" "truthy (field add_tsla_lower ''type'')"
    by (simp_all add: add_tsla_lower_def field_def)
  have f2: "field add_tsla_upper ''symbol'' = JStr ''TSLA''"
    "truthy (field add_tsla_upper ''name'')" "truthy (field add_tsla_upper ''type'')"
    by (simp_all add: add_tsla_upper_def field_def)
  have f3: "field add_aapl_lower ''symbol'' = JStr ''aapl''"
    "truthy (field add_aapl_lower ''name'')" "truthy (field add_aapl_lower ''type'')"
    by (simp_all add: add_aapl_lower_def field_def)
  have ne: "''tsla'' \<noteq> []" "''TSLA'' \<noteq> []" "''aapl'' \<noteq> []" by simp_all
  have asc: "is_ascii ''tsla''" "is_ascii ''TSLA''" "is_ascii ''aapl''"
    by (simp_all add: is_ascii_def)
  have tab: "uppercase_by_table ''tsla'' = ''TSLA''" "uppercase_by_table ''TSLA'' = ''TSLA''"
    "uppercase_by_table ''aapl'' = ''AAPL''"
    by code_simp+
  note first = addAsset_symbol_uppercase_unique[OF u(1) n1 f1(1) ne(1) asc(1) f1(2,3),
      of 400 demo_store, THEN conjunct1, rule_format, OF run_add_tsla]
  then have first': "asset_symbol tsla = uppercase_by_table ''tsla''"
    "assets store_with_tsla = assets demo_store @ [tsla]" by auto
  have e2: "\<exists>r \<in> set (assets store_with_tsla).
      asset_userId r = 1 \<and> asset_symbol r = uppercase_by_table ''TSLA''"
    by (simp add: store_with_tsla_def tsla_def tab)
  note second = addAsset_symbol_uppercase_unique[OF u(2) n1 f2(1) ne(2) asc(2) f2(2,3),
      of 401 store_with_tsla, THEN conjunct2, THEN conjunct1, rule_format, OF e2]
  have e3: "\<exists>r \<in> set (assets demo_store).
      asset_userId r = 1 \<and> asset_symbol r = uppercase_by_table ''aapl''"
    by (simp add: sample_defs tab)
  note third = addAsset_symbol_uppercase_unique[OF u(3) n1 f3(1) ne(3) asc(3) f3(2,3),
      of 401 demo_store, THEN conjunct2, THEN conjunct1, rule_format, OF e3]
  have misc: "aapl \<in> set (assets demo_store)" "asset_symbol aapl = ''AAPL''"
    by (simp_all add: sample_defs)
  from u f1(1) f2(1) f3(1) asc tab run_add_tsla first' second third misc
  show ?thesis by simp
qed

subsection \<open>Partial update\<close>

text \<open>
  C4. Let the caller \<open>uid\<close> own the asset \<open>a\<close> that the route parameter names, and let each
  body field have the type of its column where it is supplied (name and type falsy or a
  string; notes absent, null or a string). Then updateAsset answers 200 with the updated
  row \<open>a'\<close>, which is the row stored under the id, and:
  \<^item> a supplied name or type (a non-empty string) is the new value; an omitted one (or
    any falsy one, the empty string included) leaves the stored value;
  \<^item> a supplied notes string, the empty or a blank one included, is the new notes, and a
    supplied null makes notes null; omitted notes leave the stored notes.
\<close>

theorem updateAsset_partial_update:
  assumes uid: "req_userId req = Some uid" "uid \<noteq> 0"
    and i: "parseInt (params_id req) = Some i"
    and a: "find (\<lambda>r. asset_id r = i) (assets s) = Some a" "asset_userId a = uid"
    and nm: "\<not> truthy (field req ''name'') \<or> (\<exists>n. field req ''name'' = JStr n)"
    and ty: "\<not> truthy (field req ''type'') \<or> (\<exists>t. field req ''type'' = JStr t)"
    and nts: "field req ''notes'' = JUndefined \<or> field req ''notes'' = JNull \<or>
                (\<exists>x. field req ''notes'' = JStr x)"
  shows "\<exists>a' s'. updateAsset req s = (Response 200 (MessageAssetJson MsgAssetUpdated a'), s') \<and>
           find (\<lambda>r. asset_id r = i) (assets s') = Some a' \<and>
           (\<forall>n. field req ''name'' = JStr n \<and> n \<noteq> [] \<longrightarrow> asset_name a' = n) \<and>
           (\<not> truthy (field req ''name'') \<longrightarrow> asset_name a' = asset_name a) \<and>
           (\<forall>t. field req ''type'' = JStr t \<and> t \<noteq> [] \<longrightarrow> asset_type a' = t) \<and>
           (\<not> truthy (field req ''type'') \<longrightarrow> asset_type a' = asset_type a) \<and>
           (\<forall>x. field req ''notes'' = JStr x \<longrightarrow> asset_notes a' = Some x) \<and>
           (field req ''notes'' = JNull \<longrightarrow> asset_notes a' = None) \<and>
           (field req ''notes'' = JUndefined \<longrightarrow> asset_notes a' = asset_notes a)"
proof -
  define n where "n = (case field req ''name'' of
      JStr x \<Rightarrow> if x = [] then asset_name a else x | _ \<Rightarrow> asset_name a)"
  define t where "t = (case field req ''type'' of
      JStr x \<Rightarrow> if x = [] then asset_type a else x | _ \<Rightarrow> asset_type a)"
  define nt where "nt = (case field req ''notes'' of
      JStr x \<Rightarrow> Some x | JNull \<Rightarrow> None | _ \<Rightarrow> asset_notes a)"
  have hn: "as_string (js_or (field req ''name'') (JStr (asset_name a))) = Inr n"
    using nm by (auto simp: js_or_def n_def split: jsval.splits)
  have ht: "as_string (js_or (field req ''type'') (JStr (asset_type a))) = Inr t"
    using ty by (auto simp: js_or_def t_def split: jsval.splits)
  have hnt: "as_optional_string (if field req ''notes'' \<noteq> JUndefined then field req ''notes''
              else (case asset_notes a of None \<Rightarrow> JNull | Some x \<Rightarrow> JStr x)) = Inr nt"
    using nts by (auto simp: nt_def split: option.splits)
  let ?a' = "set_columns n t nt a"
  let ?s' = "s\<lparr>assets := map (\<lambda>r. if asset_id r = i then set_columns n t nt r else r)
                            (assets s)\<rparr>"
  have run: "updateAsset req s = (Response 200 (MessageAssetJson MsgAssetUpdated ?a'), ?s')"
    by (rule updateAsset_owned[OF uid i a hn ht hnt])
  have f: "find (\<lambda>r. asset_id r = i) (assets ?s') = Some ?a'"
    by (simp add: find_by_id_map a)
  have vals: "(\<forall>n. field req ''name'' = JStr n \<and> n \<noteq> [] \<longrightarrow> asset_name ?a' = n) \<and>
           (\<not> truthy (field req ''name'') \<longrightarrow> asset_name ?a' = asset_name a) \<and>
           (\<forall>t. field req ''type'' = JStr t \<and> t \<noteq> [] \<longrightarrow> asset_type ?a' = t) \<and>
           (\<not> truthy (field req ''type'') \<longrightarrow> asset_type ?a' = asset_type a) \<and>
           (\<forall>x. field req ''notes'' = JStr x \<longrightarrow> asset_notes ?a' = Some x) \<and>
           (field req ''notes'' = JNull \<longrightarrow> asset_notes ?a' = None) \<and>
           (field req ''notes'' = JUndefined \<longrightarrow> asset_notes ?a' = asset_notes a)"
    by (auto simp: set_columns_def n_def t_def nt_def split: jsval.splits)
  from run f vals show ?thesis by blast
qed

text \<open>
  Alice renames asset 1 and sends nothing else: type and notes stay. She then sends only
  an empty notes string: the notes become the empty string, name and type stay.
\<close>

theorem updateAsset_partial_update_witness:
  "req_userId rename_aapl = Some 1 \<and> parseInt (params_id rename_aapl) = Some 1 \<and>
   find (\<lambda>r. asset_id r = 1) (assets demo_store) = Some aapl \<and> asset_userId aapl = 1 \<and>
   field rename_aapl ''name'' = JStr ''Apple Inc'' \<and>
   field rename_aapl ''type'' = JUndefined \<and> field rename_aapl ''notes'' = JUndefined \<and>
   updateAsset rename_aapl demo_store =
     (Response 200 (MessageAssetJson MsgAssetUpdated aapl_renamed), store_renamed) \<and>
   asset_name aapl_renamed = ''Apple Inc'' \<and> asset_type aapl_renamed = asset_type aapl \<and>
   asset_notes aapl_renamed = asset_notes aapl \<and>
   field clear_aapl_notes ''name'' = JUndefined \<and>
   field clear_aapl_notes ''type'' = JUndefined \<and> field clear_aapl_notes ''notes'' = JStr [] \<and>
   updateAsset clear_aapl_notes demo_store =
     (Response 200 (MessageAssetJson MsgAssetUpdated aapl_cleared), store_cleared) \<and>
   asset_name aapl_cleared = asset_name aapl \<and> asset_type aapl_cleared = asset_type aapl \<and>
   asset_notes aapl_cleared = Some []"
proof -
  have u: "req_userId rename_aapl = Some 1" "req_userId clear_aapl_notes = Some 1"
    by (simp_all add: rename_aapl_def clear_aapl_notes_def alice_claims_def req_userId_def)
  have n1: "(1::int) \<noteq> 0" by simp
  have i: "parseInt (params_id rename_aapl) = Some 1"
    "parseInt (params_id clear_aapl_notes) = Some 1"
    by (simp_all add: rename_aapl_def clear_aapl_notes_def request_defs)
  have a: "find (\<lambda>r. asset_id r = 1) (assets demo_store) = Some aapl" "asset_userId aapl = 1"
    by (simp_all add: sample_defs)
  have r: "field rename_aapl ''name'' = JStr ''Apple Inc''"
    "field rename_aapl ''type'' = JUndefined" "field rename_aapl ''notes'' = JUndefined"
    by (simp_all add: rename_aapl_def field_def)
  have c: "field clear_aapl_notes ''name'' = JUndefined"
    "field clear_aapl_notes ''type'' = JUndefined" "field clear_aapl_notes ''notes'' = JStr []"
    by (simp_all add: clear_aapl_notes_def field_def)
  have rn: "\<not> truthy (field rename_aapl ''name'') \<or> (\<exists>n. field rename_aapl ''name'' = JStr n)"
    and rt: "\<not> truthy (field rename_aapl ''type'') \<or> (\<exists>t. field rename_aapl ''type'' = JStr t)"
    and rnt: "field rename_aapl ''notes'' = JUndefined \<or> field rename_aapl ''notes'' = JNull \<or>
                (\<exists>x. field rename_aapl ''notes'' = JStr x)"
    using r by simp_all
  have cn: "\<not> truthy (field clear_aapl_notes ''name'') \<or>
              (\<exists>n. field clear_aapl_notes ''name'' = JStr n)"
    and ct: "\<not> truthy (field clear_aapl_notes ''type'') \<or>
              (\<exists>t. field clear_aapl_notes ''type'' = JStr t)"
    and cnt: "field clear_aapl_notes ''notes'' = JUndefined \<or>
              field clear_aapl_notes ''notes'' = JNull \<or>
              (\<exists>x. field clear_aapl_notes ''notes'' = JStr x)"
    using c by simp_all
  from updateAsset_partial_update[OF u(1) n1 i(1) a rn rt rnt] r run_rename
  have w1: "asset_name aapl_renamed = ''Apple Inc'' \<and>
      asset_type aapl_renamed = asset_type aapl \<and> asset_notes aapl_renamed = asset_notes aapl"
    by auto
  from updateAsset_partial_update[OF u(2) n1 i(2) a cn ct cnt] c run_clear
  have w2: "asset_name aapl_cleared = asset_name aapl \<and>
      asset_type aapl_cleared = asset_type aapl \<and> asset_notes aapl_cleared = Some []"
    by auto
  from u i a r c run_rename run_clear w1 w2 show ?thesis by simp
qed

subsection \<open>What an update leaves alone\<close>

text \<open>
  C5. Whenever updateAsset answers 200, the row \<open>a\<close> found under the id before and the row
  \<open>a'\<close> returned and found under the id afterwards have the same id, owner, symbol and
  creation time. In the whole table the columns id, userId, symbol and createdAt are what
  they were, the rows with another id are untouched, and the users and both counters are
  unchanged: only name, type and notes of the row named can differ.
\<close>

theorem updateAsset_frame:
  assumes "updateAsset req s = (Response 200 b, s')"
  shows "\<exists>a a'. b = MessageAssetJson MsgAssetUpdated a' \<and>
           asset_findUnique_id (parseInt (params_id req)) s = Inr (Some a) \<and>
           asset_findUnique_id (parseInt (params_id req)) s' = Inr (Some a') \<and>
           asset_id a' = asset_id a \<and> asset_userId a' = asset_userId a \<and>
           asset_symbol a' = asset_symbol a \<and> asset_createdAt a' = asset_createdAt a \<and>
           map asset_id (assets s') = map asset_id (assets s) \<and>
           map asset_userId (assets s') = map asset_userId (assets s) \<and>
           map asset_symbol (assets s') = map asset_symbol (assets s) \<and>
           map asset_createdAt (assets s') = map asset_createdAt (assets s) \<and>
           filter (\<lambda>r. asset_id r \<noteq> asset_id a) (assets s') =
             filter (\<lambda>r. asset_id r \<noteq> asset_id a) (assets s) \<and>
           users s' = users s \<and> nextUserId s' = nextUserId s \<and> nextAssetId s' = nextAssetId s"
proof -
  from updateAsset_ok_cases[OF assms] obtain i a n t nt where
    i: "parseInt (params_id req) = Some i"
    and f: "find (\<lambda>r. asset_id r = i) (assets s) = Some a"
    and b: "b = MessageAssetJson MsgAssetUpdated (set_columns n t nt a)"
    and s': "s' = s\<lparr>assets := map (\<lambda>r. if asset_id r = i then set_columns n t nt r else r)
                                    (assets s)\<rparr>"
    by blast
  have ia: "asset_id a = i" using f by (auto dest: find_Some_iff[THEN iffD1])
  have f': "find (\<lambda>r. asset_id r = i) (assets s') = Some (set_columns n t nt a)"
    by (simp add: s' find_by_id_map f)
  have m: "map asset_id (assets s') = map asset_id (assets s)"
    "map asset_userId (assets s') = map asset_userId (assets s)"
    "map asset_symbol (assets s') = map asset_symbol (assets s)"
    "map asset_createdAt (assets s') = map asset_createdAt (assets s)"
    by (simp_all add: s' set_columns_def)
  have fl: "filter (\<lambda>r. asset_id r \<noteq> i) (assets s') = filter (\<lambda>r. asset_id r \<noteq> i) (assets s)"
    by (simp add: s' filter_other_ids_map)
  show ?thesis
    apply (rule exI[of _ a], rule exI[of _ "set_columns n t nt a"])
    using b i f f' m fl ia by (simp add: asset_findUnique_id_def s' set_columns_def)
qed

text \<open>Renaming asset 1 keeps its id, owner and symbol, and every other row.\<close>

theorem updateAsset_frame_witness:
  "updateAsset rename_aapl demo_store =
     (Response 200 (MessageAssetJson MsgAssetUpdated aapl_renamed), store_renamed) \<and>
   asset_findUnique_id (parseInt (params_id rename_aapl)) demo_store = Inr (Some aapl) \<and>
   asset_findUnique_id (parseInt (params_id rename_aapl)) store_renamed
     = Inr (Some aapl_renamed) \<and>
   asset_id aapl_renamed = asset_id aapl \<and> asset_userId aapl_renamed = asset_userId aapl \<and>
   asset_symbol aapl_renamed = asset_symbol aapl \<and>
   map asset_id (assets store_renamed) = map asset_id (assets demo_store) \<and>
   map asset_userId (assets store_renamed) = map asset_userId (assets demo_store) \<and>
   map asset_symbol (assets store_renamed) = map asset_symbol (assets demo_store) \<and>
   filter (\<lambda>r. asset_id r \<noteq> asset_id aapl) (assets store_renamed) =
     filter (\<lambda>r. asset_id r \<noteq> asset_id aapl) (assets demo_store) \<and>
   users store_renamed = users demo_store"
proof -
  from updateAsset_frame[OF run_rename] obtain a a' where
    r: "MessageAssetJson MsgAssetUpdated aapl_renamed = MessageAssetJson MsgAssetUpdated a'"
      "asset_findUnique_id (parseInt (params_id rename_aapl)) demo_store = Inr (Some a)"
      "asset_findUnique_id (parseInt (params_id rename_aapl)) store_renamed = Inr (Some a')"
      "asset_id a' = asset_id a" "asset_userId a' = asset_userId a"
      "asset_symbol a' = asset_symbol a"
      "map asset_id (assets store_renamed) = map asset_id (assets demo_store)"
      "map asset_userId (assets store_renamed) = map asset_userId (assets demo_store)"
      "map asset_symbol (assets store_renamed) = map asset_symbol (assets demo_store)"
      "filter (\<lambda>r. asset_id r \<noteq> asset_id a) (assets store_renamed) =
         filter (\<lambda>r. asset_id r \<noteq> asset_id a) (assets demo_store)"
      "users store_renamed = users demo_store"
    by blast
  have "asset_findUnique_id (parseInt (params_id rename_aapl)) demo_store = Inr (Some aapl)"
    by (simp add: rename_aapl_def request_defs asset_findUnique_id_def sample_defs)
  with r(2) have a: "a = aapl" by simp
  from r(1) have a': "a' = aapl_renamed" by simp
  from r run_rename show ?thesis unfolding a a' by simp
qed

subsection \<open>Login failures\<close>

text \<open>
  C6. Take two login calls with both fields present, with any primitives: in the first
  the look-up by email or username finds no user; in the second it finds a user and the
  password comparison returns false. Both answer 401 with the same message, so the two
  responses are equal, and neither changes the store.
\<close>

theorem login_failures_indistinguishable:
  assumes "truthy (field req1 ''emailOrUsername'')" and "truthy (field req1 ''password'')"
    and "truthy (field req2 ''emailOrUsername'')" and "truthy (field req2 ''password'')"
    and "user_findFirst_email_or_username (field req1 ''emailOrUsername'')
           (field req1 ''emailOrUsername'') s1 = Inr None"
    and "user_findFirst_email_or_username (field req2 ''emailOrUsername'')
           (field req2 ''emailOrUsername'') s2 = Inr (Some u)"
    and "comparePassword prims (field req2 ''password'') (user_password u) = Inr False"
  shows "login prims req1 s1 = (Response 401 (ErrorJson MsgBadCredentials), s1) \<and>
         login prims req2 s2 = (Response 401 (ErrorJson MsgBadCredentials), s2) \<and>
         fst (login prims req1 s1) = fst (login prims req2 s2)"
  using assms by (simp add: login_def)

text \<open>"mallory" is nobody; "alice" exists and the password is wrong.\<close>

theorem login_failures_indistinguishable_witness:
  "user_findFirst_email_or_username (field login_unknown ''emailOrUsername'')
     (field login_unknown ''emailOrUsername'') demo_store = Inr None \<and>
   user_findFirst_email_or_username (field login_wrong_password ''emailOrUsername'')
     (field login_wrong_password ''emailOrUsername'') demo_store = Inr (Some alice) \<and>
   comparePassword demo_prims (field login_wrong_password ''password'') (user_password alice)
     = Inr False \<and>
   login demo_prims login_unknown demo_store =
     (Response 401 (ErrorJson MsgBadCredentials), demo_store) \<and>
   login demo_prims login_wrong_password demo_store =
     (Response 401 (ErrorJson MsgBadCredentials), demo_store) \<and>
   fst (login demo_prims login_unknown demo_store) =
     fst (login demo_prims login_wrong_password demo_store)"
proof -
  have t: "truthy (field login_unknown ''emailOrUsername'')"
    "truthy (field login_unknown ''password'')"
    "truthy (field login_wrong_password ''emailOrUsername'')"
    "truthy (field login_wrong_password ''password'')"
    by (simp_all add: login_unknown_def login_wrong_password_def field_def)
  have n: "user_findFirst_email_or_username (field login_unknown ''emailOrUsername'')
     (field login_unknown ''emailOrUsername'') demo_store = Inr None"
    by (simp add: login_unknown_def field_def user_findFirst_email_or_username_def sample_defs
        email_term_first_def)
  have f: "user_findFirst_email_or_username (field login_wrong_password ''emailOrUsername'')
     (field login_wrong_password ''emailOrUsername'') demo_store = Inr (Some alice)"
    by (simp add: login_wrong_password_def field_def user_findFirst_email_or_username_def
        sample_defs email_term_first_def)
  have w: "comparePassword demo_prims (field login_wrong_password ''password'')
     (user_password alice) = Inr False"
    by (simp add: login_wrong_password_def field_def demo_prims_def alice_def)
  show ?thesis
    using n f w login_failures_indistinguishable[OF t n f w] by simp
qed

subsection \<open>Registration conflicts\<close>



subsection \<open>Listing\<close>

text \<open>
  C8. For an authenticated caller \<open>uid\<close>, getAssets answers 200 with a list that holds
  exactly the rows of the table owned by \<open>uid\<close> (each as often as the table has it), in
  descending order of creation time, and leaves the store unchanged; when the caller
  owns no row the list is empty, still with 200.
\<close>

theorem getAssets_owned_newest_first:
  assumes "req_userId req = Some uid" and "uid \<noteq> 0"
  shows "\<exists>xs. getAssets req s = (Response 200 (AssetsJson xs), s) \<and>
           mset xs = filter_mset (\<lambda>a. asset_userId a = uid) (mset (assets s)) \<and>
           sorted_wrt (\<lambda>a b. asset_createdAt a \<ge> asset_createdAt b) xs \<and>
           ((\<forall>a \<in> set (assets s). asset_userId a \<noteq> uid) \<longrightarrow> xs = [])"
proof -
  let ?xs = "asset_findMany uid s"
  have 1: "getAssets req s = (Response 200 (AssetsJson ?xs), s)"
    using assms by (simp add: getAssets_def)
  have 2: "mset ?xs = filter_mset (\<lambda>a. asset_userId a = uid) (mset (assets s))"
    by (simp add: asset_findMany_def)
  have "sorted (map (\<lambda>a. - asset_createdAt a) ?xs)"
    unfolding asset_findMany_def by (rule sorted_sort_key)
  then have 3: "sorted_wrt (\<lambda>a b. asset_createdAt a \<ge> asset_createdAt b) ?xs"
    by (simp add: sorted_wrt_map)
  have 4: "(\<forall>a \<in> set (assets s). asset_userId a \<noteq> uid) \<longrightarrow> ?xs = []"
    by (auto simp: asset_findMany_def filter_empty_conv)
  from 1 2 3 4 show ?thesis by blast
qed

text \<open>Alice sees her two assets, the newer first; Carol, who owns none, sees none.\<close>

theorem getAssets_owned_newest_first_witness:
  "req_userId alice_list = Some 1 \<and>
   getAssets alice_list demo_store = (Response 200 (AssetsJson [msft, aapl]), demo_store) \<and>
   req_userId carol_list = Some 7 \<and>
   getAssets carol_list demo_store = (Response 200 (AssetsJson []), demo_store)"
proof -
  have a: "req_userId alice_list = Some 1"
    by (simp add: alice_list_def alice_claims_def req_userId_def)
  have c: "req_userId carol_list = Some 7"
    by (simp add: carol_list_def carol_claims_def req_userId_def)
  have n1: "(1::int) \<noteq> 0" and n7: "(7::int) \<noteq> 0" by simp_all
  from getAssets_owned_newest_first[OF a n1, of demo_store] obtain xs where
    xs: "getAssets alice_list demo_store = (Response 200 (AssetsJson xs), demo_store)"
    by blast
  have "asset_findMany 1 demo_store = [msft, aapl]"
    by (simp add: asset_findMany_def sample_defs)
  with a have "getAssets alice_list demo_store = (Response 200 (AssetsJson [msft, aapl]), demo_store)"
    by (simp add: getAssets_def)
  moreover
  from getAssets_owned_newest_first[OF c n7, of demo_store] obtain ys where
    "getAssets carol_list demo_store = (Response 200 (AssetsJson ys), demo_store)"
    and "(\<forall>a \<in> set (assets demo_store). asset_userId a \<noteq> 7) \<longrightarrow> ys = []" by blast
  moreover have "\<forall>a \<in> set (assets demo_store). asset_userId a \<noteq> 7"
    by (simp add: sample_defs)
  ultimately show ?thesis using a c by simp
qed

subsection \<open>Falsy notes on add\<close>

text \<open>
  C9. When the notes of an add-asset request are falsy (absent, null, false, 0 or the
  empty string):
  \<^item> whenever addAsset answers 201, the asset returned is the row appended to the table and
    its notes are null;
  \<^item> the request with the same user, symbol, name and type and no notes at all gives the
    same response and the same store.
  And for every request, whatever its notes: the table after addAsset is the table
  before, or the table before with one row appended whose notes are not the empty string.
\<close>

theorem addAsset_falsy_notes_null:
  assumes falsy: "\<not> truthy (field req ''notes'')"
  shows "(\<forall>b s'. addAsset now req s = (Response 201 b, s') \<longrightarrow>
            (\<exists>a. b = MessageAssetJson MsgAssetAdded a \<and> asset_notes a = None \<and>
                 assets s' = assets s @ [a])) \<and>
         (\<forall>req'. user req' = user req \<and> field req' ''symbol'' = field req ''symbol'' \<and>
                 field req' ''name'' = field req ''name'' \<and>
                 field req' ''type'' = field req ''type'' \<and>
                 field req' ''notes'' = JUndefined \<longrightarrow>
                 addAsset now req' s = addAsset now req s) \<and>
         (\<forall>req0. assets (snd (addAsset now req0 s)) = assets s \<or>
                 (\<exists>a. assets (snd (addAsset now req0 s)) = assets s @ [a] \<and>
                      asset_notes a \<noteq> Some []))"
proof (intro conjI allI impI)
  fix b s' assume ok: "addAsset now req s = (Response 201 b, s')"
  from falsy have "js_or (field req ''notes'') JNull = JNull" by (simp add: js_or_def)
  with addAsset_created_cases[OF ok]
  show "\<exists>a. b = MessageAssetJson MsgAssetAdded a \<and> asset_notes a = None \<and>
                 assets s' = assets s @ [a]"
    by auto
next
  fix req'
  assume same: "user req' = user req \<and> field req' ''symbol'' = field req ''symbol'' \<and>
                 field req' ''name'' = field req ''name'' \<and>
                 field req' ''type'' = field req ''type'' \<and>
                 field req' ''notes'' = JUndefined"
  from falsy have "js_or (field req ''notes'') JNull = JNull" by (simp add: js_or_def)
  moreover from same have "js_or (field req' ''notes'') JNull = JNull" by (simp add: js_or_def)
  moreover from same have "req_userId req' = req_userId req" by (simp add: req_userId_def)
  ultimately show "addAsset now req' s = addAsset now req s"
    using same
    by (simp add: addAsset_def addAsset_interleaved_def Let_def
        cong: option.case_cong sum.case_cong if_cong)
next
  fix req0
  show "assets (snd (addAsset now req0 s)) = assets s \<or>
                 (\<exists>a. assets (snd (addAsset now req0 s)) = assets s @ [a] \<and>
                      asset_notes a \<noteq> Some [])"
  proof (cases "snd (addAsset now req0 s) = s")
    case True
    then show ?thesis by simp
  next
    case False
    with addAsset_store_cases[of now req0 s] obtain b where
      ok: "addAsset now req0 s = (Response 201 b, snd (addAsset now req0 s))" by blast
    from addAsset_created_cases[OF ok] obtain uid sy n t nt where
      nt: "as_optional_string (js_or (field req0 ''notes'') JNull) = Inr nt"
      and s': "snd (addAsset now req0 s) = s\<lparr>assets := assets s @
                    [\<lparr>asset_id = nextAssetId s, asset_userId = uid,
                      asset_symbol = toUpperCase sy, asset_name = n, asset_type = t,
                      asset_notes = nt, asset_createdAt = now\<rparr>],
                  nextAssetId := nextAssetId s + 1\<rparr>"
      by blast
    have "nt \<noteq> Some []"
      using nt by (cases "field req0 ''notes''") (auto simp: js_or_def split: if_splits)
    with s' show ?thesis by simp
  qed
qed

text \<open>Adding TSLA with notes "" stores null notes, exactly as adding it with no notes.\<close>

theorem addAsset_falsy_notes_null_witness:
  "field add_tsla_empty_notes ''notes'' = JStr [] \<and>
   field add_tsla_lower ''notes'' = JUndefined \<and>
   addAsset 400 add_tsla_empty_notes demo_store =
     (Response 201 (MessageAssetJson MsgAssetAdded tsla), store_with_tsla) \<and>
   addAsset 400 add_tsla_empty_notes demo_store = addAsset 400 add_tsla_lower demo_store \<and>
   asset_notes tsla = None \<and> assets store_with_tsla = assets demo_store @ [tsla]"
proof -
  have e: "field add_tsla_empty_notes ''notes'' = JStr []"
    by (simp add: add_tsla_empty_notes_def field_def)
  then have falsy: "\<not> truthy (field add_tsla_empty_notes ''notes'')" by simp
  have same: "user add_tsla_lower = user add_tsla_empty_notes \<and>
      field add_tsla_lower ''symbol'' = field add_tsla_empty_notes ''symbol'' \<and>
      field add_tsla_lower ''name'' = field add_tsla_empty_notes ''name'' \<and>
      field add_tsla_lower ''type'' = field add_tsla_empty_notes ''type'' \<and>
      field add_tsla_lower ''notes'' = JUndefined"
    by (simp add: add_tsla_lower_def add_tsla_empty_notes_def field_def)
  note c = addAsset_falsy_notes_null[OF falsy, of 400 demo_store]
  from c same have eq: "addAsset 400 add_tsla_lower demo_store =
      addAsset 400 add_tsla_empty_notes demo_store" by blast
  with run_add_tsla have run: "addAsset 400 add_tsla_empty_notes demo_store =
     (Response 201 (MessageAssetJson MsgAssetAdded tsla), store_with_tsla)" by simp
  with c have "asset_notes tsla = None \<and> assets store_with_tsla = assets demo_store @ [tsla]"
    by auto
  with e same eq run show ?thesis by simp
qed

subsection \<open>The defensive identity check\<close>

text \<open>
  C10. When the request carries no user id, or the user id 0, each of getAssets, addAsset,
  updateAsset and deleteAsset answers 401 with the unauthorized message on every store,
  and returns the store it was given: the response does not depend on the store, and
  nothing is written.
\<close>

theorem asset_handlers_unauthorized:
  assumes "req_userId req = None \<or> req_userId req = Some 0"
  shows "getAssets req s = (Response 401 (ErrorJson MsgUnauthorized), s) \<and>
         addAsset now req s = (Response 401 (ErrorJson MsgUnauthorized), s) \<and>
         updateAsset req s = (Response 401 (ErrorJson MsgUnauthorized), s) \<and>
         deleteAsset req s = (Response 401 (ErrorJson MsgUnauthorized), s)"
  using assms
  by (auto simp: getAssets_def addAsset_def addAsset_interleaved_def updateAsset_def
      deleteAsset_def)

theorem asset_handlers_unauthorized_witness:
  "req_userId anonymous_request = None \<and> req_userId zero_id_request = Some 0 \<and>
   getAssets anonymous_request demo_store =
     (Response 401 (ErrorJson MsgUnauthorized), demo_store) \<and>
   addAsset 400 anonymous_request demo_store =
     (Response 401 (ErrorJson MsgUnauthorized), demo_store) \<and>
   updateAsset anonymous_request demo_store =
     (Response 401 (ErrorJson MsgUnauthorized), demo_store) \<and>
   deleteAsset anonymous_request demo_store =
     (Response 401 (ErrorJson MsgUnauthorized), demo_store) \<and>
   getAssets zero_id_request demo_store =
     (Response 401 (ErrorJson MsgUnauthorized), demo_store) \<and>
   addAsset 400 zero_id_request demo_store =
     (Response 401 (ErrorJson MsgUnauthorized), demo_store) \<and>
   updateAsset zero_id_request demo_store =
     (Response 401 (ErrorJson MsgUnauthorized), demo_store) \<and>
   deleteAsset zero_id_request demo_store =
     (Response 401 (ErrorJson MsgUnauthorized), demo_store)"
proof -
  have a: "req_userId anonymous_request = None"
    by (simp add: anonymous_request_def req_userId_def)
  have z: "req_userId zero_id_request = Some 0"
    by (simp add: zero_id_request_def zero_claims_def req_userId_def)
  from a have a': "req_userId anonymous_request = None \<or> req_userId anonymous_request = Some 0" ..
  from z have z': "req_userId zero_id_request = None \<or> req_userId zero_id_request = Some 0" ..
  show ?thesis
    using a z asset_handlers_unauthorized[OF a', of demo_store 400]
      asset_handlers_unauthorized[OF z', of demo_store 400]
    by simp
qed

end
